theory Spec2Isabelle
  imports Main "HOL-Library.Sublist"
begin

section \<open>Errors\<close>

text \<open>
  Every \<^verbatim>\<open>throw\<close> and every rejected promise of \<^verbatim>\<open>shacl.service.ts\<close> is a value:
  \<^item> \<open>ConflictException m\<close> is NestJS's \<^verbatim>\<open>new ConflictException(m)\<close>;
  \<^item> \<open>TypeError m\<close> is the error the JavaScript runtime raises on a property access
    through \<^verbatim>\<open>undefined\<close>;
  \<^item> \<open>Rejection m\<close> is a failure of a collaborator (the HTTP client, the JSON-LD
    canonizer, the N3 parser, the SHACL validator), with its message.
  Functions that can fail return \<open>error + 'a\<close>, with \<open>Inl\<close> the error.
\<close>

datatype error = ConflictException string | TypeError string | Rejection string

fun message :: "error \<Rightarrow> string" where
  "message (ConflictException m) = m"
| "message (TypeError m) = m"
| "message (Rejection m) = m"

section \<open>String operations of the runtime\<close>

text \<open>
  \<^verbatim>\<open>str.indexOf(pat)\<close>: the position of the first occurrence of \<open>pat\<close> in \<open>str\<close>,
  or \<open>-1\<close>.
\<close>

fun indexOf :: "string \<Rightarrow> string \<Rightarrow> int" where
  "indexOf [] pat = (if pat = [] then 0 else - 1)"
| "indexOf (c # cs) pat =
     (if prefix pat (c # cs) then 0
      else (let i = indexOf cs pat in if i = - 1 then - 1 else i + 1))"

text \<open>
  \<^verbatim>\<open>str.split(sep)\<close> for a separator of one character: the pieces between the
  separators, in order; the empty string splits into one empty piece.
\<close>

fun split_str :: "string \<Rightarrow> char \<Rightarrow> string list" where
  "split_str [] sep = [[]]"
| "split_str (c # cs) sep =
     (if c = sep then [] # split_str cs sep
      else (case split_str cs sep of [] \<Rightarrow> [[c]] | w # ws \<Rightarrow> (c # w) # ws))"

text \<open>
  \<^verbatim>\<open>str.replace(/<*>*/g, '')\<close>. At each position the pattern matches the longest run
  of \<^verbatim>\<open><\<close> followed by the longest run of \<^verbatim>\<open>>\<close>; \<open>skip_match\<close> is what follows that
  match. A match that is not empty is deleted and the scan goes on behind it; after an
  empty match the scan keeps the character and moves one position on.
\<close>

definition skip_match :: "string \<Rightarrow> string" where
  "skip_match s = dropWhile (\<lambda>x. x = CHR ''>'') (dropWhile (\<lambda>x. x = CHR ''<'') s)"

function replace_angle :: "string \<Rightarrow> string" where
  "replace_angle [] = []"
| "replace_angle (c # cs) =
     (if length (skip_match (c # cs)) < length (c # cs)
      then replace_angle (skip_match (c # cs))
      else c # replace_angle cs)"
  by pat_completeness auto
termination
  by (relation "measure length") auto

section \<open>The type extractor\<close>

definition newline :: char where
  "newline = CHR 0x0A"

definition rdf_type :: string where
  "rdf_type = ''http://www.w3.org/1999/02/22-rdf-syntax-ns#type''"

definition proof_marker :: string where
  "proof_marker = ''<https://w3id.org/security#JsonWebSignature2020>''"

definition vp_marker :: string where
  "vp_marker = ''<https://www.w3.org/2018/credentials#VerifiablePresentation>''"

definition vc_marker :: string where
  "vc_marker = ''<https://www.w3.org/2018/credentials#VerifiableCredential>''"

text \<open>
  The callback of the final \<^verbatim>\<open>map\<close>: \<^verbatim>\<open>typeQuad.split(' ')[2].replace(/<*>*/g, '')\<close>.
  When the line has fewer than three pieces, index 2 is \<^verbatim>\<open>undefined\<close> and the call of
  \<^verbatim>\<open>replace\<close> raises a TypeError.
\<close>

definition third_term :: "string \<Rightarrow> error + string" where
  "third_term typeQuad =
     (case drop 2 (split_str typeQuad CHR '' '') of
        [] \<Rightarrow> Inl (TypeError ''Cannot read properties of undefined (reading 'replace')'')
      | t # _ \<Rightarrow> Inr (replace_angle t))"

text \<open>\<^verbatim>\<open>Array.prototype.map\<close> with a callback that may throw: the first throw ends it.\<close>

fun map_throwing :: "('a \<Rightarrow> error + 'b) \<Rightarrow> 'a list \<Rightarrow> error + 'b list" where
  "map_throwing f [] = Inr []"
| "map_throwing f (x # xs) =
     (case f x of
        Inl e \<Rightarrow> Inl e
      | Inr y \<Rightarrow> (case map_throwing f xs of Inl e \<Rightarrow> Inl e | Inr ys \<Rightarrow> Inr (y # ys)))"

definition getVPTypes :: "string \<Rightarrow> error + string list" where
  "getVPTypes canonizedVP =
     map_throwing third_term
       (filter (\<lambda>typeQuad. indexOf typeQuad vc_marker = - 1)
         (filter (\<lambda>typeQuad. indexOf typeQuad vp_marker = - 1)
           (filter (\<lambda>typeQuad. indexOf typeQuad proof_marker = - 1)
             (filter (\<lambda>quad. indexOf quad rdf_type > - 1)
               (split_str canonizedVP newline)))))"

section \<open>Values handed to the service\<close>

text \<open>
  The documents and the shape payloads have the TypeScript type \<^verbatim>\<open>any\<close>: a value is a
  string or some other object. The canonical quads are strings.
\<close>

datatype 'o any = Text string | Object 'o

text \<open>
  A value that the validation report hands to a template literal. \<open>Obj s\<close> is an
  object whose \<^verbatim>\<open>toString()\<close> gives \<open>s\<close>; an array is such an object, its text the texts
  of its elements joined with commas, so \<open>Obj []\<close> is the empty array. \<open>render\<close> is the text
  the template literal inserts, \<open>truthy\<close> is what \<^verbatim>\<open>||\<close> tests: every object is truthy, the
  empty array too.
\<close>

datatype jsval = Undefined | Null | Str string | Obj string

fun render :: "jsval \<Rightarrow> string" where
  "render Undefined = ''undefined''"
| "render Null = ''null''"
| "render (Str s) = s"
| "render (Obj s) = s"

fun truthy :: "jsval \<Rightarrow> bool" where
  "truthy Undefined = False"
| "truthy Null = False"
| "truthy (Str s) = (s \<noteq> [])"
| "truthy (Obj s) = True"

section \<open>The collaborators\<close>

text \<open>The report of \<^verbatim>\<open>rdf-validate-shacl\<close>, as far as \<^verbatim>\<open>validate\<close> reads it.\<close>

record detail =
  detail_path :: jsval
  detail_message :: jsval

record shacl_result =
  result_focusNode :: jsval
  result_path :: jsval
  result_message :: jsval
  result_detail :: "detail list option"

record report =
  report_conforms :: bool
  report_results :: "shacl_result list"

record ValidationResult =
  conforms :: bool
  results :: "string list"

text \<open>
  What the service does not compute itself is a field of the environment:
  \<^item> \<open>REGISTRY_URL\<close>: \<^verbatim>\<open>process.env.REGISTRY_URL\<close>;
  \<^item> \<open>canonize\<close>: \<^verbatim>\<open>jsonld.canonize(x, { format: 'application/n-quads' })\<close>;
  \<^item> \<open>n3_import\<close>: \<^verbatim>\<open>rdf.dataset().import(parser.import(stream))\<close> for a stream that
    holds the given value;
  \<^item> \<open>JSON_parse_ok\<close>: \<^verbatim>\<open>JSON.parse(x)\<close> does not throw;
  \<^item> \<open>http_get_names\<close>, \<open>http_get_shape\<close>: the \<^verbatim>\<open>data\<close> of the response to an HTTP GET of
    a URL, by the type the caller reads it at;
  \<^item> \<open>shacl_validate\<close>: \<^verbatim>\<open>new SHACLValidator(shapes).validate(data)\<close>.
\<close>

record ('o, 'ds) env =
  REGISTRY_URL :: "string option"
  canonize :: "'o any \<Rightarrow> error + string"
  n3_import :: "'o any \<Rightarrow> error + 'ds"
  JSON_parse_ok :: "'o any \<Rightarrow> bool"
  http_get_names :: "string \<Rightarrow> error + string list"
  http_get_shape :: "string \<Rightarrow> error + 'o any"
  shacl_validate :: "'ds \<Rightarrow> 'ds \<Rightarrow> error + report"

section \<open>The state: the module's cache and the registry's request log\<close>

text \<open>
  \<^verbatim>\<open>const cache = { trustframework: {} }\<close> is a plain object, never given another key:
  the service only reads \<^verbatim>\<open>cache[type]\<close> and writes the property \<^verbatim>\<open>shape\<close> of the object it
  finds there. A property lookup follows the prototype chain, so \<^verbatim>\<open>cache[type]\<close> is
  \<^item> the entry \<^verbatim>\<open>{}\<close> for \<^verbatim>\<open>'trustframework'\<close>;
  \<^item> \<^verbatim>\<open>Object.prototype\<close> itself for \<^verbatim>\<open>'__proto__'\<close>;
  \<^item> a function of \<^verbatim>\<open>Object.prototype\<close> for each of its eleven method names;
  \<^item> the value of \<^verbatim>\<open>Object.prototype.shape\<close> for \<^verbatim>\<open>'shape'\<close>, once a write through
    \<^verbatim>\<open>'__proto__'\<close> has created that property;
  \<^item> \<^verbatim>\<open>undefined\<close> for every other name.
  The state of the cache is the own \<^verbatim>\<open>shape\<close> property of each of these objects.
  \<open>fetched\<close> records the shape names asked of the registry, oldest first.
\<close>

datatype cache_ref = Entry | ObjectPrototype | Member string | PrototypeShape

record 'ds state =
  cache :: "cache_ref \<Rightarrow> 'ds option"
  fetched :: "string list"

definition initial_state :: "'ds state" where
  "initial_state = \<lparr>cache = (\<lambda>r. None), fetched = []\<rparr>"

definition Object_prototype_methods :: "string list" where
  "Object_prototype_methods =
     [''constructor'', ''__defineGetter__'', ''__defineSetter__'', ''hasOwnProperty'',
      ''__lookupGetter__'', ''__lookupSetter__'', ''isPrototypeOf'', ''propertyIsEnumerable'',
      ''toString'', ''valueOf'', ''toLocaleString'']"

text \<open>\<^verbatim>\<open>cache[type]\<close>: the object found, or \<open>None\<close> for \<^verbatim>\<open>undefined\<close>.\<close>

definition cache_get :: "(cache_ref \<Rightarrow> 'ds option) \<Rightarrow> string \<Rightarrow> cache_ref option" where
  "cache_get c type =
     (if type = ''trustframework'' then Some Entry
      else if type = ''__proto__'' then Some ObjectPrototype
      else if type \<in> set Object_prototype_methods then Some (Member type)
      else if type = ''shape'' \<and> c ObjectPrototype \<noteq> None then Some PrototypeShape
      else None)"

text \<open>\<^verbatim>\<open>r.shape\<close>: the object's own property, else the one of \<^verbatim>\<open>Object.prototype\<close>.\<close>

definition get_shape :: "(cache_ref \<Rightarrow> 'ds option) \<Rightarrow> cache_ref \<Rightarrow> 'ds option" where
  "get_shape c r = (case c r of Some s \<Rightarrow> Some s | None \<Rightarrow> c ObjectPrototype)"

text \<open>\<^verbatim>\<open>cache[type] && cache[type].shape\<close>; a dataset object is truthy.\<close>

definition cached_shape :: "(cache_ref \<Rightarrow> 'ds option) \<Rightarrow> string \<Rightarrow> 'ds option" where
  "cached_shape c type = (case cache_get c type of None \<Rightarrow> None | Some r \<Rightarrow> get_shape c r)"

definition isCached :: "(cache_ref \<Rightarrow> 'ds option) \<Rightarrow> string \<Rightarrow> bool" where
  "isCached c type = (cached_shape c type \<noteq> None)"

text \<open>\<^verbatim>\<open>cache[type].shape = schema\<close>.\<close>

definition set_shape ::
  "(cache_ref \<Rightarrow> 'ds option) \<Rightarrow> string \<Rightarrow> 'ds \<Rightarrow> error + (cache_ref \<Rightarrow> 'ds option)" where
  "set_shape c type schema =
     (case cache_get c type of
        None \<Rightarrow> Inl (TypeError ''Cannot set properties of undefined (setting 'shape')'')
      | Some r \<Rightarrow> Inr (c(r := Some schema)))"

section \<open>The registry service\<close>

definition registryUrl :: "('o, 'ds) env \<Rightarrow> string" where
  "registryUrl env =
     (case REGISTRY_URL env of
        None \<Rightarrow> ''https://registry.gaia-x.eu/development''
      | Some url \<Rightarrow> if url = [] then ''https://registry.gaia-x.eu/development'' else url)"

definition getImplementedTrustFrameworkShapes :: "('o, 'ds) env \<Rightarrow> error + string list" where
  "getImplementedTrustFrameworkShapes env =
     http_get_names env (registryUrl env @ ''/shapes/implemented'')"

definition getShape ::
  "('o, 'ds) env \<Rightarrow> 'ds state \<Rightarrow> string \<Rightarrow> (error + 'o any) \<times> 'ds state" where
  "getShape env st shape =
     (http_get_shape env (registryUrl env @ ''/shapes/'' @ shape),
      st\<lparr>fetched := fetched st @ [shape]\<rparr>)"

section \<open>The SHACL service\<close>

subsection \<open>validate\<close>

definition default_text :: string where
  "default_text = ''does not conform with the given shape''"

text \<open>\<^verbatim>\<open>${m || 'does not conform with the given shape'}\<close>.\<close>

definition message_or_default :: "jsval \<Rightarrow> string" where
  "message_or_default m = (if truthy m then render m else default_text)"

text \<open>The inner loop over \<^verbatim>\<open>result.detail\<close>, which rebuilds \<^verbatim>\<open>errorMessage\<close> at each turn.\<close>

fun detail_loop :: "string \<Rightarrow> detail list \<Rightarrow> string" where
  "detail_loop errorMessage [] = errorMessage"
| "detail_loop errorMessage (d # ds) =
     detail_loop
       (errorMessage @ '' '' @ render (detail_path d) @ '': ''
          @ message_or_default (detail_message d) @ '';'')
       ds"

text \<open>
  The body of the outer loop: the message pushed for one result of the report. In
  \<open>results_loop\<close> the first argument is the array \<^verbatim>\<open>results\<close> built so far.
\<close>

definition error_message :: "shacl_result \<Rightarrow> string" where
  "error_message result =
     (let errorMessage =
        ''ERROR: '' @ render (result_focusNode result) @ '' '' @ render (result_path result)
          @ '': '' @ message_or_default (result_message result)
      in case result_detail result of
           None \<Rightarrow> errorMessage
         | Some ds \<Rightarrow>
             if length ds > 0 then detail_loop (errorMessage @ ''; DETAILS:'') ds
             else errorMessage)"

fun results_loop :: "string list \<Rightarrow> shacl_result list \<Rightarrow> string list" where
  "results_loop pushed [] = pushed"
| "results_loop pushed (r # rs) = results_loop (pushed @ [error_message r]) rs"

definition validate :: "('o, 'ds) env \<Rightarrow> 'ds \<Rightarrow> 'ds \<Rightarrow> error + ValidationResult" where
  "validate env shapes data =
     (case shacl_validate env shapes data of
        Inl e \<Rightarrow> Inl e
      | Inr report \<Rightarrow>
          Inr \<lparr>conforms = report_conforms report,
               results = results_loop [] (report_results report)\<rparr>)"

subsection \<open>Loading graphs\<close>

text \<open>
  \<^verbatim>\<open>loadFromTurtle\<close> returns the promise of \<^verbatim>\<open>transformToStream\<close> without awaiting it, so
  its \<^verbatim>\<open>catch\<close> sees no failure of the import: the failure reaches the caller as it is.
\<close>

definition loadFromTurtle :: "('o, 'ds) env \<Rightarrow> 'o any \<Rightarrow> error + 'ds" where
  "loadFromTurtle env raw = n3_import env raw"

definition normalize :: "('o, 'ds) env \<Rightarrow> 'o any \<Rightarrow> error + string" where
  "normalize env objectToCanonize = canonize env objectToCanonize"

text \<open>The guard \<^verbatim>\<open>!quads || quads.length === 0\<close> holds of the empty string only.\<close>

definition loadFromJSONLDWithQuads :: "('o, 'ds) env \<Rightarrow> 'o any \<Rightarrow> error + 'ds" where
  "loadFromJSONLDWithQuads env data =
     (case normalize env data of
        Inl e \<Rightarrow> Inl e
      | Inr quads \<Rightarrow>
          if quads = [] then Inl (ConflictException ''Unable to canonize your VerifiablePresentation'')
          else n3_import env (Text quads))"

definition isJsonString :: "('o, 'ds) env \<Rightarrow> 'o any \<Rightarrow> bool" where
  "isJsonString env str = JSON_parse_ok env str"

text \<open>
  The \<^verbatim>\<open>try\<close> of \<^verbatim>\<open>loadShaclFromUrl\<close> awaits the registry only: a failure of the request
  is wrapped in a \<^verbatim>\<open>ConflictException\<close>, which takes the message of the error it wraps.
  The two loaders are returned without \<^verbatim>\<open>await\<close>, so their failures pass unwrapped.
\<close>

definition loadShaclFromUrl ::
  "('o, 'ds) env \<Rightarrow> 'ds state \<Rightarrow> string \<Rightarrow> (error + 'ds) \<times> 'ds state" where
  "loadShaclFromUrl env st type =
     (case getShape env st type of
        (Inl e, st') \<Rightarrow> (Inl (ConflictException (message e)), st')
      | (Inr response, st') \<Rightarrow>
          (if isJsonString env response then loadFromJSONLDWithQuads env response
           else loadFromTurtle env response,
           st'))"

definition getShaclShape ::
  "('o, 'ds) env \<Rightarrow> 'ds state \<Rightarrow> string \<Rightarrow> (error + 'ds) \<times> 'ds state" where
  "getShaclShape env st shapeName = loadShaclFromUrl env st shapeName"

subsection \<open>The membership gate\<close>

definition namespace :: string where
  "namespace =
     ''https://registry.lab.gaia-x.eu/development/api/trusted-shape-registry/v1/shapes/jsonld/trustframework#''"

text \<open>\<^verbatim>\<open>Array.prototype.indexOf\<close>.\<close>

fun array_indexOf :: "'a list \<Rightarrow> 'a \<Rightarrow> int" where
  "array_indexOf [] x = - 1"
| "array_indexOf (y # ys) x =
     (if y = x then 0 else (let i = array_indexOf ys x in if i = - 1 then - 1 else i + 1))"

text \<open>\<^verbatim>\<open>Array.prototype.reduce\<close> without an initial value.\<close>

definition reduce :: "('a \<Rightarrow> 'a \<Rightarrow> 'a) \<Rightarrow> 'a list \<Rightarrow> error + 'a" where
  "reduce f xs =
     (case xs of
        [] \<Rightarrow> Inl (TypeError ''Reduce of empty array with no initial value'')
      | x # rest \<Rightarrow> Inr (foldl f x rest))"

definition shouldCredentialBeValidated :: "('o, 'ds) env \<Rightarrow> string \<Rightarrow> error + bool" where
  "shouldCredentialBeValidated env quads =
     (case getImplementedTrustFrameworkShapes env of
        Inl e \<Rightarrow> Inl e
      | Inr names \<Rightarrow>
          (let validTypes = map (\<lambda>validType. namespace @ validType) names in
           case getVPTypes quads of
             Inl e \<Rightarrow> Inl e
           | Inr credentialTypes \<Rightarrow>
               if length credentialTypes > 0
               then reduce (\<lambda>previousValue currentValue. previousValue \<and> currentValue)
                      (map (\<lambda>type. array_indexOf validTypes type > - 1) credentialTypes)
               else Inr False))"

subsection \<open>verifyShape\<close>

text \<open>
  The body of the \<^verbatim>\<open>try\<close> block. The test \<^verbatim>\<open>this.isCached(type)\<close> and the read of
  \<^verbatim>\<open>cache[type].shape\<close> that follows it are one case distinction on \<open>cached_shape\<close>:
  \<open>isCached\<close> holds exactly when it is \<open>Some shape\<close>. The logger is not modelled.
\<close>

definition verifyShape_try ::
  "('o, 'ds) env \<Rightarrow> 'ds state \<Rightarrow> 'o any \<Rightarrow> string \<Rightarrow> (error + ValidationResult) \<times> 'ds state" where
  "verifyShape_try env st verifiablePresentation type =
     (case loadFromJSONLDWithQuads env verifiablePresentation of
        Inl e \<Rightarrow> (Inl e, st)
      | Inr selfDescriptionDataset \<Rightarrow>
          (case cached_shape (cache st) type of
             Some shape \<Rightarrow> (validate env shape selfDescriptionDataset, st)
           | None \<Rightarrow>
               (case getShaclShape env st type of
                  (Inl e, st') \<Rightarrow> (Inl e, st')
                | (Inr schema, st') \<Rightarrow>
                    (case set_shape (cache st') type schema of
                       Inl e \<Rightarrow> (Inl e, st')
                     | Inr c \<Rightarrow> (validate env schema selfDescriptionDataset, st'\<lparr>cache := c\<rparr>)))))"

definition verifyShape ::
  "('o, 'ds) env \<Rightarrow> 'ds state \<Rightarrow> 'o any \<Rightarrow> string \<Rightarrow> (error + ValidationResult) \<times> 'ds state" where
  "verifyShape env st verifiablePresentation type =
     (case normalize env verifiablePresentation of
        Inl e \<Rightarrow> (Inl e, st)
      | Inr quads \<Rightarrow>
          (case shouldCredentialBeValidated env quads of
             Inl e \<Rightarrow> (Inl e, st)
           | Inr ok \<Rightarrow>
               if \<not> ok
               then (Inl (ConflictException
                      ''VerifiableCrdential contains a shape that is not defined in registry shapes''), st)
               else (case verifyShape_try env st verifiablePresentation type of
                       (Inl e, st') \<Rightarrow> (Inr \<lparr>conforms = False, results = [message e]\<rparr>, st')
                     | (Inr r, st') \<Rightarrow> (Inr r, st'))))"

subsection \<open>Sequences of calls\<close>

text \<open>
  The state after a sequence of \<^verbatim>\<open>verifyShape\<close> calls, each with its own document and type
  name, and with what the collaborators answer at the time of that call.
\<close>

fun verifyShape_calls ::
  "'ds state \<Rightarrow> (('o, 'ds) env \<times> 'o any \<times> string) list \<Rightarrow> 'ds state" where
  "verifyShape_calls st [] = st"
| "verifyShape_calls st ((env, vp, type) # calls) =
     verifyShape_calls (snd (verifyShape env st vp type)) calls"

section \<open>The specification's wording\<close>

text \<open>
  The message for one violation as the specification words it:
  \<^verbatim>\<open>ERROR: <focusNodeValue> <path>: <message or default-text>\<close>, then, when there are
  nested details, \<^verbatim>\<open>; DETAILS:\<close> and for each detail, in order,
  \<^verbatim>\<open> <path>: <message or default-text>;\<close>. The default text stands wherever the violation
  carries no message: the message is missing, or it is empty, be it the empty string or
  the empty list of messages.
\<close>

fun message_text :: "jsval \<Rightarrow> string" where
  "message_text Undefined = ''does not conform with the given shape''"
| "message_text Null = ''does not conform with the given shape''"
| "message_text (Str s) = (if s = [] then ''does not conform with the given shape'' else s)"
| "message_text (Obj s) = (if s = [] then ''does not conform with the given shape'' else s)"

definition detail_text :: "detail \<Rightarrow> string" where
  "detail_text d =
     '' '' @ render (detail_path d) @ '': '' @ message_text (detail_message d) @ '';''"

definition violation_text :: "shacl_result \<Rightarrow> string" where
  "violation_text v =
     ''ERROR: '' @ render (result_focusNode v) @ '' '' @ render (result_path v) @ '': ''
       @ message_text (result_message v)
       @ (case result_detail v of
            None \<Rightarrow> []
          | Some ds \<Rightarrow> if ds = [] then [] else ''; DETAILS:'' @ concat (map detail_text ds))"

text \<open>
  The type extractor as the specification words it. A line of canonical quads is
  \<^verbatim>\<open>subject predicate object [graph] .\<close>, its terms separated by one space: the predicate
  is the second term and the object the third. The line is kept when its predicate is
  the type predicate and its object is none of the three markers, and the object is
  returned without the angle brackets that delimit it.
\<close>

definition strip_delimiters :: "string \<Rightarrow> string" where
  "strip_delimiters t =
     (let u = (case t of [] \<Rightarrow> t | c # cs \<Rightarrow> if c = CHR ''<'' then cs else t)
      in if u \<noteq> [] \<and> last u = CHR ''>'' then butlast u else u)"

definition spec_extractTypes :: "string \<Rightarrow> string list" where
  "spec_extractTypes canonicalQuads =
     map (\<lambda>line. strip_delimiters (split_str line CHR '' '' ! 2))
       (filter
         (\<lambda>line. 3 \<le> length (split_str line CHR '' '')
            \<and> split_str line CHR '' '' ! 1 = ''<'' @ rdf_type @ ''>''
            \<and> split_str line CHR '' '' ! 2 \<noteq> proof_marker
            \<and> split_str line CHR '' '' ! 2 \<noteq> vp_marker
            \<and> split_str line CHR '' '' ! 2 \<noteq> vc_marker)
         (split_str canonicalQuads newline))"

text \<open>
  What the source's four filters keep: the lines in which the text of the type predicate
  occurs somewhere and the text of no marker occurs anywhere.
\<close>

definition kept_lines :: "string \<Rightarrow> string list" where
  "kept_lines canonizedVP =
     filter (\<lambda>line. sublist rdf_type line \<and> \<not> sublist proof_marker line
                \<and> \<not> sublist vp_marker line \<and> \<not> sublist vc_marker line)
       (split_str canonizedVP newline)"

section \<open>The format of the canonical quads\<close>

text \<open>
  The service asks the canonizer for \<^verbatim>\<open>application/n-quads\<close>. In that format each statement
  is one line that ends in \<^verbatim>\<open> .\<close> and a newline, and a graph without statements is the empty
  string: split at the newlines, every piece but the last ends in \<^verbatim>\<open> .\<close> and the last piece
  is empty.
\<close>

definition canonical_nquads :: "string \<Rightarrow> bool" where
  "canonical_nquads q =
     (last (split_str q newline) = []
      \<and> list_all (\<lambda>line. suffix '' .'' line) (butlast (split_str q newline)))"

text \<open>A text of blanks, tabs, newlines and carriage returns only; the empty text is one.\<close>

definition whitespace_only :: "string \<Rightarrow> bool" where
  "whitespace_only q = list_all (\<lambda>c. c \<in> set [CHR '' '', CHR 0x09, CHR 0x0A, CHR 0x0D]) q"

section \<open>Concrete inputs\<close>

definition participant_quads :: string where
  "participant_quads =
     ''<did:web:example.org:vc> <http://www.w3.org/1999/02/22-rdf-syntax-ns#type> <https://www.w3.org/2018/credentials#VerifiableCredential> .''
     @ [newline] @
     ''<did:web:example.org> <http://www.w3.org/1999/02/22-rdf-syntax-ns#type> <https://registry.lab.gaia-x.eu/development/api/trusted-shape-registry/v1/shapes/jsonld/trustframework#LegalParticipant> .''
     @ [newline]"

definition unregistered_quads :: string where
  "unregistered_quads =
     ''<did:web:example.org> <http://www.w3.org/1999/02/22-rdf-syntax-ns#type> <https://registry.lab.gaia-x.eu/development/api/trusted-shape-registry/v1/shapes/jsonld/trustframework#Unregistered> .''
     @ [newline]"

definition two_types_quads :: string where
  "two_types_quads =
     ''<did:web:example.org> <http://www.w3.org/1999/02/22-rdf-syntax-ns#type> <https://registry.lab.gaia-x.eu/development/api/trusted-shape-registry/v1/shapes/jsonld/trustframework#LegalParticipant> .''
     @ [newline] @
     ''<did:web:example.org:so> <http://www.w3.org/1999/02/22-rdf-syntax-ns#type> <https://registry.lab.gaia-x.eu/development/api/trusted-shape-registry/v1/shapes/jsonld/trustframework#ServiceOffering> .''
     @ [newline]"

definition about_type_quads :: string where
  "about_type_quads =
     ''<did:web:example.org> <https://schema.org/about> <http://www.w3.org/1999/02/22-rdf-syntax-ns#type> .''
     @ [newline]"

text \<open>
  An environment for the examples. A document \<open>Object q\<close> canonizes to the quads \<open>q\<close>; the
  parser returns the lines of its input that are not blank; no payload is JSON; the
  registry at the default URL implements \<^verbatim>\<open>LegalParticipant\<close> and serves one shape text
  under every shape name; the validator finds no violation.
\<close>

definition example_env :: "(string, string list) env" where
  "example_env =
     \<lparr>REGISTRY_URL = None,
      canonize = (\<lambda>x. case x of Object q \<Rightarrow> Inr q | Text s \<Rightarrow> Inl (Rejection ''Could not load document'')),
      n3_import =
        (\<lambda>x. case x of
                Text s \<Rightarrow> Inr (filter (\<lambda>l. dropWhile (\<lambda>c. c = CHR '' '') l \<noteq> []) (split_str s newline))
              | Object q \<Rightarrow> Inl (Rejection ''Invalid chunk'')),
      JSON_parse_ok = (\<lambda>x. False),
      http_get_names =
        (\<lambda>url. if url = ''https://registry.gaia-x.eu/development/shapes/implemented''
               then Inr [''LegalParticipant'']
               else Inl (Rejection ''Request failed with status code 404'')),
      http_get_shape =
        (\<lambda>url. if prefix ''https://registry.gaia-x.eu/development/shapes/'' url
               then Inr (Text ''<urn:shape> <http://www.w3.org/1999/02/22-rdf-syntax-ns#type> <http://www.w3.org/ns/shacl#NodeShape> .'')
               else Inl (Rejection ''Request failed with status code 404'')),
      shacl_validate = (\<lambda>shapes data. Inr \<lparr>report_conforms = True, report_results = []\<rparr>)\<rparr>"

text \<open>The same, with a registry that does not answer a request for a shape.\<close>

definition unreachable_env :: "(string, string list) env" where
  "unreachable_env = example_env\<lparr>http_get_shape := (\<lambda>url. Inl (Rejection ''connect ECONNREFUSED''))\<rparr>"

text \<open>The same, with the registry configured at another URL and answering there.\<close>

definition mirror_env :: "(string, string list) env" where
  "mirror_env =
     example_env
       \<lparr>REGISTRY_URL := Some ''https://registry.example.org'',
        http_get_names :=
          (\<lambda>url. if url = ''https://registry.example.org/shapes/implemented''
                 then Inr [''LegalParticipant'']
                 else Inl (Rejection ''Request failed with status code 404''))\<rparr>"

text \<open>An environment whose validator returns the given report.\<close>

definition reporting_env :: "report \<Rightarrow> (string, string list) env" where
  "reporting_env rep = example_env\<lparr>shacl_validate := (\<lambda>shapes data. Inr rep)\<rparr>"

text \<open>
  The specification's example of a violation, as the validator reports it: the messages of
  a result are a list of terms, empty for a violation that carries no message.
\<close>

definition no_message_report :: report where
  "no_message_report =
     \<lparr>report_conforms = False,
      report_results =
        [\<lparr>result_focusNode = Str ''ex:1'', result_path = Obj ''ex:name'',
          result_message = Obj [],
          result_detail =
            Some [\<lparr>detail_path = Obj ''ex:age'', detail_message = Obj ''must be integer''\<rparr>]\<rparr>]\<rparr>"

section \<open>Properties of the string operations\<close>

lemma indexOf_ge: "- 1 \<le> indexOf s p"
  by (induction s) (auto simp: Let_def)

lemma indexOf_sublist: "(indexOf s p > - 1) = sublist p s"
proof (induction s)
  case Nil
  then show ?case by auto
next
  case (Cons c cs)
  have "- 1 \<le> indexOf cs p" by (rule indexOf_ge)
  with Cons show ?case
    by (auto simp: Let_def sublist_Cons_right)
qed

lemma indexOf_absent: "(indexOf s p = - 1) = (\<not> sublist p s)"
  using indexOf_sublist [of s p] indexOf_ge [of s p] by auto


lemma split_str_no_sep: "w \<in> set (split_str s sep) \<Longrightarrow> sep \<notin> set w"
  by (induction s arbitrary: w) (auto split: list.splits if_splits)

lemma filter_dropWhile:
  "(\<And>x. Q x \<Longrightarrow> \<not> P x) \<Longrightarrow> filter P (dropWhile Q xs) = filter P xs"
  by (induction xs) auto

lemma filter_skip_match:
  "filter (\<lambda>x. x \<noteq> CHR ''<'' \<and> x \<noteq> CHR ''>'') (skip_match s) =
   filter (\<lambda>x. x \<noteq> CHR ''<'' \<and> x \<noteq> CHR ''>'') s"
  by (simp add: skip_match_def filter_dropWhile)

lemma skip_match_keeps:
  assumes a: "\<not> length (skip_match (c # cs)) < length (c # cs)"
  shows "c \<noteq> CHR ''<'' \<and> c \<noteq> CHR ''>''"
proof (rule ccontr)
  assume "\<not> (c \<noteq> CHR ''<'' \<and> c \<noteq> CHR ''>'')"
  then consider "c = CHR ''<''" | "c = CHR ''>''" by auto
  then have "length (skip_match (c # cs)) \<le> length cs"
  proof cases
    case 1
    then have "skip_match (c # cs) = skip_match cs" by (simp add: skip_match_def)
    then show ?thesis
      unfolding skip_match_def
      by (simp add: order_trans [OF length_dropWhile_le length_dropWhile_le])
  next
    case 2
    then have "skip_match (c # cs) = dropWhile (\<lambda>x. x = CHR ''>'') cs"
      by (simp add: skip_match_def)
    then show ?thesis by (simp add: length_dropWhile_le)
  qed
  with a show False by simp
qed

lemma replace_angle_filter:
  "replace_angle s = filter (\<lambda>x. x \<noteq> CHR ''<'' \<and> x \<noteq> CHR ''>'') s"
proof (induction s rule: replace_angle.induct)
  case 1
  then show ?case by simp
next
  case (2 c cs)
  show ?case
  proof (cases "length (skip_match (c # cs)) < length (c # cs)")
    case True
    then have "replace_angle (c # cs) = replace_angle (skip_match (c # cs))" by simp
    also have "\<dots> = filter (\<lambda>x. x \<noteq> CHR ''<'' \<and> x \<noteq> CHR ''>'') (skip_match (c # cs))"
      using 2(1) True by simp
    finally show ?thesis by (simp only: filter_skip_match)
  next
    case False
    then have "c \<noteq> CHR ''<'' \<and> c \<noteq> CHR ''>''" by (rule skip_match_keeps)
    with False 2(2) show ?thesis by simp
  qed
qed

section \<open>Properties of the type extractor\<close>

lemma third_term_eq:
  "third_term l =
     (if 3 \<le> length (split_str l CHR '' '')
      then Inr (filter (\<lambda>x. x \<noteq> CHR ''<'' \<and> x \<noteq> CHR ''>'') (split_str l CHR '' '' ! 2))
      else Inl (TypeError ''Cannot read properties of undefined (reading 'replace')''))"
proof (cases "drop 2 (split_str l CHR '' '')")
  case Nil
  then show ?thesis by (simp add: third_term_def)
next
  case (Cons t ts)
  then have "2 < length (split_str l CHR '' '')"
    by (cases "2 < length (split_str l CHR '' '')") auto
  moreover from this Cons have "split_str l CHR '' '' ! 2 = t"
    by (metis hd_drop_conv_nth list.sel(1))
  ultimately show ?thesis using Cons by (simp add: third_term_def replace_angle_filter)
qed

lemma map_throwing_third_term:
  "map_throwing third_term ls =
     (if \<forall>l\<in>set ls. 3 \<le> length (split_str l CHR '' '')
      then Inr (map (\<lambda>l. filter (\<lambda>x. x \<noteq> CHR ''<'' \<and> x \<noteq> CHR ''>'') (split_str l CHR '' '' ! 2)) ls)
      else Inl (TypeError ''Cannot read properties of undefined (reading 'replace')''))"
  by (induction ls) (auto simp: third_term_eq)

lemma filters_kept_lines:
  "filter (\<lambda>typeQuad. indexOf typeQuad vc_marker = - 1)
     (filter (\<lambda>typeQuad. indexOf typeQuad vp_marker = - 1)
       (filter (\<lambda>typeQuad. indexOf typeQuad proof_marker = - 1)
         (filter (\<lambda>quad. indexOf quad rdf_type > - 1) ls))) =
   filter (\<lambda>line. sublist rdf_type line \<and> \<not> sublist proof_marker line
                \<and> \<not> sublist vp_marker line \<and> \<not> sublist vc_marker line) ls"
  by (induction ls) (auto simp: indexOf_sublist indexOf_absent)

section \<open>Properties of validate\<close>

lemma message_or_default_text: "m \<noteq> Obj [] \<Longrightarrow> message_or_default m = message_text m"
  by (cases m) (simp_all add: message_or_default_def default_text_def)

lemma detail_loop_concat:
  "\<forall>d\<in>set ds. detail_message d \<noteq> Obj [] \<Longrightarrow>
   detail_loop acc ds = acc @ concat (map detail_text ds)"
  by (induction ds arbitrary: acc) (simp_all add: detail_text_def message_or_default_text)

lemma error_message_text:
  assumes "result_message r \<noteq> Obj []"
    and "\<forall>ds. result_detail r = Some ds \<longrightarrow> (\<forall>d\<in>set ds. detail_message d \<noteq> Obj [])"
  shows "error_message r = violation_text r"
  using assms
  by (cases "result_detail r")
     (simp_all add: error_message_def violation_text_def Let_def detail_loop_concat
        message_or_default_text)

lemma results_loop_map: "results_loop acc rs = acc @ map error_message rs"
  by (induction rs arbitrary: acc) simp_all

lemma validate_results:
  assumes "shacl_validate env shapes data = Inr rep"
  shows "validate env shapes data =
           Inr \<lparr>conforms = report_conforms rep,
                results = map error_message (report_results rep)\<rparr>"
  using assms by (simp add: validate_def results_loop_map)

text \<open>
  Where no message of the report is the empty list, the strings are the specification's.
\<close>

lemma validate_with_messages:
  assumes "shacl_validate env shapes data = Inr rep"
    and "\<forall>r\<in>set (report_results rep). result_message r \<noteq> Obj []
           \<and> (\<forall>ds. result_detail r = Some ds \<longrightarrow> (\<forall>d\<in>set ds. detail_message d \<noteq> Obj []))"
  shows "validate env shapes data =
           Inr \<lparr>conforms = report_conforms rep,
                results = map violation_text (report_results rep)\<rparr>"
proof -
  from assms(2) have "map error_message (report_results rep) =
      map violation_text (report_results rep)"
    by (intro map_cong refl error_message_text) auto
  with validate_results [OF assms(1)] show ?thesis by simp
qed

section \<open>Properties of the canonical format\<close>




section \<open>Properties of the membership gate\<close>

lemma array_indexOf_ge: "- 1 \<le> array_indexOf xs x"
  by (induction xs) (auto simp: Let_def)

lemma array_indexOf_mem: "(array_indexOf xs x > - 1) = (x \<in> set xs)"
proof (induction xs)
  case Nil
  then show ?case by simp
next
  case (Cons y ys)
  have "- 1 \<le> array_indexOf ys x" by (rule array_indexOf_ge)
  with Cons show ?case by (auto simp: Let_def)
qed

lemma foldl_conj: "foldl (\<lambda>p c. p \<and> c) b bs = (b \<and> (\<forall>x\<in>set bs. x))"
  by (induction bs arbitrary: b) auto

lemma reduce_conj: "bs \<noteq> [] \<Longrightarrow> reduce (\<lambda>p c. p \<and> c) bs = Inr (\<forall>x\<in>set bs. x)"
  by (cases bs) (auto simp: reduce_def foldl_conj)

lemma gate_value:
  assumes "getImplementedTrustFrameworkShapes env = Inr names"
    and "getVPTypes quads = Inr credentialTypes"
  shows "shouldCredentialBeValidated env quads =
           Inr (credentialTypes \<noteq> [] \<and>
                (\<forall>t\<in>set credentialTypes. t \<in> set (map (\<lambda>n. namespace @ n) names)))"
proof (cases "credentialTypes = []")
  case True
  with assms show ?thesis by (simp add: shouldCredentialBeValidated_def)
next
  case False
  then have "map (\<lambda>type. array_indexOf (map (\<lambda>n. namespace @ n) names) type > - 1) credentialTypes \<noteq> []"
    by simp
  from reduce_conj [OF this] False assms show ?thesis
    by (simp add: shouldCredentialBeValidated_def array_indexOf_mem)
qed

section \<open>Properties of the cache\<close>

lemma isCached_iff: "isCached c t = (\<exists>shape. cached_shape c t = Some shape)"
  by (simp add: isCached_def)

lemma loadShaclFromUrl_state:
  "snd (loadShaclFromUrl env st t) = st\<lparr>fetched := fetched st @ [t]\<rparr>"
  by (simp add: loadShaclFromUrl_def getShape_def split: sum.splits)

lemma getShaclShape_state:
  "snd (getShaclShape env st t) = st\<lparr>fetched := fetched st @ [t]\<rparr>"
  by (simp add: getShaclShape_def loadShaclFromUrl_state)

lemma cache_get_inj:
  "cache_get c t = Some r \<Longrightarrow> cache_get c x = Some r \<Longrightarrow> t = x"
  by (auto simp: cache_get_def split: if_splits)

lemma cache_get_Some_mono:
  assumes "cache_get c x = Some r"
    and "c ObjectPrototype \<noteq> None \<longrightarrow> c' ObjectPrototype \<noteq> None"
  shows "cache_get c' x = Some r"
  using assms by (auto simp: cache_get_def split: if_splits)

lemma set_shape_keeps:
  assumes x: "cached_shape c x = Some s"
    and t: "cached_shape c t = None"
    and w: "set_shape c t schema = Inr c'"
  shows "cached_shape c' x = Some s"
proof -
  from w obtain r where r: "cache_get c t = Some r" and c': "c' = c(r := Some schema)"
    by (auto simp: set_shape_def split: option.splits)
  from x obtain rx where rx: "cache_get c x = Some rx" and gx: "get_shape c rx = Some s"
    by (auto simp: cached_shape_def split: option.splits)
  from t r have gt: "get_shape c r = None" by (simp add: cached_shape_def)
  then have cr: "c r = None" and cp: "c ObjectPrototype = None"
    by (auto simp: get_shape_def split: option.splits)
  from x t have "t \<noteq> x" by auto
  with r rx have ne: "rx \<noteq> r" using cache_get_inj by blast
  from cp gx have own: "c rx = Some s" by (simp add: get_shape_def split: option.splits)
  have "cache_get c' x = Some rx"
    by (rule cache_get_Some_mono [OF rx]) (simp add: cp)
  moreover from own ne c' have "get_shape c' rx = Some s" by (simp add: get_shape_def)
  ultimately show ?thesis by (simp add: cached_shape_def)
qed

lemma verifyShape_try_cached:
  assumes "cached_shape (cache st) t = Some s"
  shows "snd (verifyShape_try env st vp t) = st"
  using assms by (simp add: verifyShape_try_def split: sum.splits)

lemma verifyShape_try_fetched:
  "fetched (snd (verifyShape_try env st vp t)) = fetched st \<or>
   fetched (snd (verifyShape_try env st vp t)) = fetched st @ [t]"
  by (cases "getShaclShape env st t")
     (use getShaclShape_state [of env st t] in
       \<open>auto simp: verifyShape_try_def split: sum.splits option.splits\<close>)

lemma verifyShape_try_keeps:
  assumes x: "cached_shape (cache st) x = Some s"
  shows "cached_shape (cache (snd (verifyShape_try env st vp t))) x = Some s"
proof (cases "cached_shape (cache st) t")
  case (Some s')
  then show ?thesis using x by (simp add: verifyShape_try_cached)
next
  case None
  obtain res st' where g: "getShaclShape env st t = (res, st')"
    by (cases "getShaclShape env st t")
  with getShaclShape_state [of env st t] have st': "st' = st\<lparr>fetched := fetched st @ [t]\<rparr>"
    by simp
  then have c: "cache st' = cache st" by simp
  show ?thesis
  proof (cases "loadFromJSONLDWithQuads env vp")
    case (Inl e)
    then show ?thesis using x by (simp add: verifyShape_try_def)
  next
    case (Inr ds)
    show ?thesis
    proof (cases res)
      case (Inl e)
      with Inr None g c x show ?thesis by (simp add: verifyShape_try_def)
    next
      case schema: (Inr schema)
      show ?thesis
      proof (cases "set_shape (cache st) t schema")
        case (Inl e)
        with Inr None g c x schema show ?thesis by (simp add: verifyShape_try_def)
      next
        case w: (Inr c')
        from set_shape_keeps [OF x None w] have "cached_shape c' x = Some s" .
        with Inr None g c schema w show ?thesis by (simp add: verifyShape_try_def)
      qed
    qed
  qed
qed

lemma verifyShape_state:
  "snd (verifyShape env st vp t) = st \<or>
   snd (verifyShape env st vp t) = snd (verifyShape_try env st vp t)"
  by (auto simp: verifyShape_def split: sum.splits prod.splits)

lemma verifyShape_keeps:
  assumes "cached_shape (cache st) x = Some s"
  shows "cached_shape (cache (snd (verifyShape env st vp t))) x = Some s"
  using verifyShape_state [of env st vp t] verifyShape_try_keeps [OF assms, of env vp t] assms
  by auto

lemma verifyShape_no_fetch_of:
  assumes "cached_shape (cache st) x = Some s"
  shows "count_list (fetched (snd (verifyShape env st vp t))) x = count_list (fetched st) x"
proof (cases "t = x")
  case True
  with assms have "snd (verifyShape_try env st vp t) = st" by (simp add: verifyShape_try_cached)
  with verifyShape_state [of env st vp t] show ?thesis by auto
next
  case False
  with verifyShape_state [of env st vp t] verifyShape_try_fetched [of env st vp t]
  show ?thesis by auto
qed

lemma verifyShape_calls_keep:
  assumes "cached_shape (cache st) x = Some s"
  shows "cached_shape (cache (verifyShape_calls st calls)) x = Some s \<and>
         count_list (fetched (verifyShape_calls st calls)) x = count_list (fetched st) x"
  using assms
proof (induction calls arbitrary: st)
  case Nil
  then show ?case by simp
next
  case (Cons call calls)
  obtain env vp t where call: "call = (env, vp, t)" by (cases call)
  let ?st = "snd (verifyShape env st vp t)"
  from Cons.prems have k: "cached_shape (cache ?st) x = Some s" by (rule verifyShape_keeps)
  from Cons.IH [OF k] verifyShape_no_fetch_of [OF Cons.prems, of env vp t] call
  show ?case by simp
qed

lemma verifyShape_after_gate:
  assumes "normalize env vp = Inr quads" and "shouldCredentialBeValidated env quads = Inr True"
  shows "verifyShape env st vp t =
           (case verifyShape_try env st vp t of
              (Inl e, st') \<Rightarrow> (Inr \<lparr>conforms = False, results = [message e]\<rparr>, st')
            | (Inr r, st') \<Rightarrow> (Inr r, st'))"
  using assms by (simp add: verifyShape_def)

section \<open>Facts about the concrete inputs\<close>

lemma example_normalize: "normalize example_env (Object q) = Inr q"
  by (simp add: normalize_def example_env_def)

lemma unreachable_normalize: "normalize unreachable_env (Object q) = Inr q"
  by (simp add: normalize_def unreachable_env_def example_env_def)

lemma example_implemented:
  "getImplementedTrustFrameworkShapes example_env = Inr [''LegalParticipant'']"
  by (simp add: getImplementedTrustFrameworkShapes_def registryUrl_def example_env_def)

lemma participant_types:
  "getVPTypes participant_quads = Inr [namespace @ ''LegalParticipant'']"
  by code_simp

lemma example_gate_passes:
  "shouldCredentialBeValidated example_env participant_quads = Inr True"
  using gate_value [OF example_implemented participant_types] by simp

lemma unreachable_gate_passes:
  "shouldCredentialBeValidated unreachable_env participant_quads = Inr True"
  using example_gate_passes
  by (simp add: shouldCredentialBeValidated_def getImplementedTrustFrameworkShapes_def
      registryUrl_def unreachable_env_def)

lemma participant_quads_nonempty: "participant_quads \<noteq> []"
  by (simp add: participant_quads_def)

lemma example_data_graph:
  "loadFromJSONLDWithQuads example_env (Object participant_quads) =
     Inr (filter (\<lambda>l. dropWhile (\<lambda>c. c = CHR '' '') l \<noteq> []) (split_str participant_quads newline))"
  by (simp add: loadFromJSONLDWithQuads_def normalize_def example_env_def
      participant_quads_nonempty)

lemma unreachable_data_graph:
  "loadFromJSONLDWithQuads unreachable_env (Object participant_quads) =
     Inr (filter (\<lambda>l. dropWhile (\<lambda>c. c = CHR '' '') l \<noteq> []) (split_str participant_quads newline))"
  by (simp add: loadFromJSONLDWithQuads_def normalize_def unreachable_env_def example_env_def
      participant_quads_nonempty)

lemma participant_quads_canonical: "canonical_nquads participant_quads"
  by code_simp

lemma single_space_not_canonical: "whitespace_only '' '' \<and> \<not> canonical_nquads '' ''"
  by code_simp

lemma initial_not_cached:
  "cached_shape (cache (initial_state :: 'ds state)) ''trustframework'' = None"
  by (simp add: cached_shape_def cache_get_def get_shape_def initial_state_def)

section \<open>The claims\<close>

text \<open>
  C1. When the membership check over the types extracted from the document's canonical
  quads answers false, \<open>verifyShape\<close> raises the \<open>ConflictException\<close> of the trust-framework
  mismatch: its result is an error, never a \<open>ValidationResult\<close>, and the state is left as
  it was.
\<close>

theorem verifyShape_mismatch_raises:
  assumes "normalize env vp = Inr quads"
    and "shouldCredentialBeValidated env quads = Inr False"
  shows "verifyShape env st vp type =
           (Inl (ConflictException
              ''VerifiableCrdential contains a shape that is not defined in registry shapes''), st)"
  using assms by (simp add: verifyShape_def)

theorem verifyShape_mismatch_raises_witness:
  "verifyShape example_env initial_state (Object unregistered_quads) ''trustframework'' =
     (Inl (ConflictException
        ''VerifiableCrdential contains a shape that is not defined in registry shapes''),
      initial_state)"
proof -
  have n: "normalize example_env (Object unregistered_quads) = Inr unregistered_quads"
    by (simp add: normalize_def example_env_def)
  have g: "shouldCredentialBeValidated example_env unregistered_quads = Inr False"
    by code_simp
  show ?thesis by (rule verifyShape_mismatch_raises [OF n g])
qed

text \<open>
  C2. Given the short names the registry declares as implemented and the list of types
  extracted from the quads, \<open>shouldCredentialBeValidated\<close> answers true exactly when the
  list is not empty and each of its elements is one of the implemented names prefixed
  with the trust-framework namespace. So an empty list gives false, and so does a list
  with one element outside the prefixed names.
\<close>

theorem membership_all_or_nothing:
  assumes "getImplementedTrustFrameworkShapes env = Inr names"
    and "getVPTypes quads = Inr credentialTypes"
  shows "shouldCredentialBeValidated env quads =
           Inr (credentialTypes \<noteq> [] \<and>
                (\<forall>t\<in>set credentialTypes. t \<in> (\<lambda>name. namespace @ name) ` set names))"
  using gate_value [OF assms] by simp

theorem membership_all_or_nothing_witness:
  "shouldCredentialBeValidated example_env two_types_quads = Inr False \<and>
   shouldCredentialBeValidated example_env [] = Inr False \<and>
   shouldCredentialBeValidated example_env participant_quads = Inr True"
proof -
  note i = example_implemented
  have two: "getVPTypes two_types_quads =
      Inr [namespace @ ''LegalParticipant'', namespace @ ''ServiceOffering'']"
    by code_simp
  have none: "getVPTypes [] = Inr []"
    by code_simp
  note one = participant_types
  show ?thesis
    using membership_all_or_nothing [OF i two] membership_all_or_nothing [OF i none]
      membership_all_or_nothing [OF i one]
    by simp
qed

text \<open>
  C3, as the code has it. A failure of the shape loader during \<open>verifyShape\<close> happens
  inside the \<^verbatim>\<open>try\<close> block: when the gate has passed, the data graph is built and no shape
  is cached for the type, a loader that fails with \<open>e\<close> makes \<open>verifyShape\<close> return the
  result \<^verbatim>\<open>{conforms: false, results: [e.message]}\<close>; nothing is raised.
\<close>

theorem shape_load_failure_absorbed:
  assumes "normalize env vp = Inr quads"
    and "shouldCredentialBeValidated env quads = Inr True"
    and "loadFromJSONLDWithQuads env vp = Inr ds"
    and "cached_shape (cache st) type = None"
    and "loadShaclFromUrl env st type = (Inl e, st')"
  shows "verifyShape env st vp type = (Inr \<lparr>conforms = False, results = [message e]\<rparr>, st')"
  using assms
  by (simp add: verifyShape_after_gate verifyShape_try_def getShaclShape_def)

theorem shape_load_failure_absorbed_witness:
  "verifyShape unreachable_env initial_state (Object participant_quads) ''trustframework'' =
     (Inr \<lparr>conforms = False, results = [''connect ECONNREFUSED'']\<rparr>,
      initial_state\<lparr>fetched := [''trustframework'']\<rparr>)"
proof -
  have l: "loadShaclFromUrl unreachable_env initial_state ''trustframework'' =
      (Inl (ConflictException ''connect ECONNREFUSED''),
       initial_state\<lparr>fetched := [''trustframework'']\<rparr>)"
    by (simp add: loadShaclFromUrl_def getShape_def unreachable_env_def initial_state_def)
  from shape_load_failure_absorbed
    [OF unreachable_normalize unreachable_gate_passes unreachable_data_graph initial_not_cached l]
  show ?thesis by simp
qed

text \<open>
  C3, as the claim has it, fails: with a registry that refuses the request for the shape,
  the loader signals its \<open>ConflictException\<close> and \<open>verifyShape\<close> still returns a result.
\<close>

theorem shape_load_failure_not_raised:
  "fst (loadShaclFromUrl unreachable_env (initial_state :: string list state) ''trustframework'') =
     Inl (ConflictException ''connect ECONNREFUSED'') \<and>
   fst (verifyShape unreachable_env initial_state (Object participant_quads) ''trustframework'') =
     Inr \<lparr>conforms = False, results = [''connect ECONNREFUSED'']\<rparr>"
  by code_simp

text \<open>
  C4. Once the gate has passed, a failure \<open>e\<close> at any step of the \<^verbatim>\<open>try\<close> block is caught:
  the re-parse of the document, the validation against a cached shape, the load of the
  shape, the write of the shape into the cache, or the validation against the loaded
  shape. In each case \<open>verifyShape\<close> returns \<^verbatim>\<open>{conforms: false, results: [e.message]}\<close>,
  with the state \<open>st'\<close> reached when the step failed.
\<close>

theorem verifyShape_absorbs_failures:
  assumes "normalize env vp = Inr quads"
    and "shouldCredentialBeValidated env quads = Inr True"
    and "(loadFromJSONLDWithQuads env vp = Inl e \<and> st' = st)
       \<or> (\<exists>ds shape. loadFromJSONLDWithQuads env vp = Inr ds
             \<and> cached_shape (cache st) type = Some shape
             \<and> validate env shape ds = Inl e \<and> st' = st)
       \<or> (\<exists>ds. loadFromJSONLDWithQuads env vp = Inr ds
             \<and> cached_shape (cache st) type = None
             \<and> getShaclShape env st type = (Inl e, st'))
       \<or> (\<exists>ds schema. loadFromJSONLDWithQuads env vp = Inr ds
             \<and> cached_shape (cache st) type = None
             \<and> getShaclShape env st type = (Inr schema, st')
             \<and> set_shape (cache st') type schema = Inl e)
       \<or> (\<exists>ds schema st1 c. loadFromJSONLDWithQuads env vp = Inr ds
             \<and> cached_shape (cache st) type = None
             \<and> getShaclShape env st type = (Inr schema, st1)
             \<and> set_shape (cache st1) type schema = Inr c
             \<and> validate env schema ds = Inl e \<and> st' = st1\<lparr>cache := c\<rparr>)"
  shows "verifyShape env st vp type = (Inr \<lparr>conforms = False, results = [message e]\<rparr>, st')"
proof -
  from assms(3) have "verifyShape_try env st vp type = (Inl e, st')"
    by (auto simp: verifyShape_try_def)
  with assms(1,2) show ?thesis by (simp add: verifyShape_after_gate)
qed

theorem verifyShape_absorbs_failures_witness:
  "verifyShape example_env initial_state (Object participant_quads) ''LegalParticipant'' =
     (Inr \<lparr>conforms = False,
           results = [''Cannot set properties of undefined (setting 'shape')'']\<rparr>,
      initial_state\<lparr>fetched := [''LegalParticipant'']\<rparr>)"
proof -
  let ?st' = "(initial_state :: string list state)\<lparr>fetched := [''LegalParticipant'']\<rparr>"
  let ?schema = "[''<urn:shape> <http://www.w3.org/1999/02/22-rdf-syntax-ns#type> <http://www.w3.org/ns/shacl#NodeShape> .'']"
  have c: "cached_shape (cache (initial_state :: string list state)) ''LegalParticipant'' = None"
    by (simp add: cached_shape_def cache_get_def initial_state_def Object_prototype_methods_def)
  have g: "getShaclShape example_env initial_state ''LegalParticipant'' = (Inr ?schema, ?st')"
    by (simp add: getShaclShape_def loadShaclFromUrl_def getShape_def isJsonString_def
        loadFromTurtle_def registryUrl_def example_env_def initial_state_def newline_def)
  have w: "set_shape (cache ?st') ''LegalParticipant'' ?schema =
      Inl (TypeError ''Cannot set properties of undefined (setting 'shape')'')"
    by (simp add: set_shape_def cache_get_def initial_state_def Object_prototype_methods_def)
  have "verifyShape example_env initial_state (Object participant_quads) ''LegalParticipant'' =
      (Inr \<lparr>conforms = False,
            results = [message (TypeError ''Cannot set properties of undefined (setting 'shape')'')]\<rparr>,
       ?st')"
    by (rule verifyShape_absorbs_failures [OF example_normalize example_gate_passes])
       (use example_data_graph c g w in blast)
  then show ?thesis by simp
qed



text \<open>
  C6, as the code has it. Only \<open>verifyShape\<close> uses the cache, and \<^verbatim>\<open>'trustframework'\<close> is the
  entry it is given. A first \<open>verifyShape\<close> call for \<^verbatim>\<open>'trustframework'\<close> that passes the gate,
  builds the data graph and loads the shape asks the registry once and stores the shape.
  After it, through any sequence of further \<open>verifyShape\<close> calls (any documents, any type
  names, any answers of the collaborators), the stored shape stays the same and the
  registry is not asked for \<^verbatim>\<open>'trustframework'\<close> again; a later call for \<^verbatim>\<open>'trustframework'\<close>
  that passes the gate validates against the stored shape and leaves the state as it
  is. \<open>getShaclShape\<close> itself asks the registry at every call.
\<close>

theorem cached_shape_reused:
  assumes "normalize env vp = Inr quads"
    and "shouldCredentialBeValidated env quads = Inr True"
    and "loadFromJSONLDWithQuads env vp = Inr ds"
    and "cached_shape (cache st) ''trustframework'' = None"
    and "loadShaclFromUrl env st ''trustframework'' = (Inr schema, st1)"
    and "normalize env2 vp2 = Inr quads2"
    and "shouldCredentialBeValidated env2 quads2 = Inr True"
    and "loadFromJSONLDWithQuads env2 vp2 = Inr ds2"
  shows "let st' = snd (verifyShape env st vp ''trustframework'');
             stN = verifyShape_calls st' calls
         in fetched st' = fetched st @ [''trustframework'']
          \<and> cached_shape (cache stN) ''trustframework'' = Some schema
          \<and> count_list (fetched stN) ''trustframework'' = count_list (fetched st') ''trustframework''
          \<and> verifyShape env2 stN vp2 ''trustframework'' =
              (case validate env2 schema ds2 of
                 Inl e \<Rightarrow> Inr \<lparr>conforms = False, results = [message e]\<rparr>
               | Inr r \<Rightarrow> Inr r,
               stN)
          \<and> fetched (snd (getShaclShape env2 stN X)) = fetched stN @ [X]"
proof -
  let ?tf = "''trustframework''"
  define st' where "st' = snd (verifyShape env st vp ?tf)"
  define stN where "stN = verifyShape_calls st' calls"
  from loadShaclFromUrl_state [of env st ?tf] assms(5)
  have st1: "st1 = st\<lparr>fetched := fetched st @ [?tf]\<rparr>" by simp
  have w: "set_shape (cache st1) ?tf schema = Inr ((cache st)(Entry := Some schema))"
    by (simp add: set_shape_def cache_get_def st1)
  have "verifyShape_try env st vp ?tf =
      (validate env schema ds, st1\<lparr>cache := (cache st)(Entry := Some schema)\<rparr>)"
    using assms(3,4,5) w by (simp add: verifyShape_try_def getShaclShape_def)
  then have "st' = st1\<lparr>cache := (cache st)(Entry := Some schema)\<rparr>"
    using assms(1,2) by (simp add: st'_def verifyShape_after_gate split: sum.splits)
  then have f: "fetched st' = fetched st @ [?tf]"
    and c: "cached_shape (cache st') ?tf = Some schema"
    by (simp_all add: st1 cached_shape_def cache_get_def get_shape_def)
  from verifyShape_calls_keep [OF c, of calls]
  have k: "cached_shape (cache stN) ?tf = Some schema"
    and n: "count_list (fetched stN) ?tf = count_list (fetched st') ?tf"
    by (simp_all add: stN_def)
  from k assms(8) have "verifyShape_try env2 stN vp2 ?tf = (validate env2 schema ds2, stN)"
    by (simp add: verifyShape_try_def)
  with assms(6,7) have v: "verifyShape env2 stN vp2 ?tf =
      (case validate env2 schema ds2 of
         Inl e \<Rightarrow> Inr \<lparr>conforms = False, results = [message e]\<rparr>
       | Inr r \<Rightarrow> Inr r,
       stN)"
    by (simp add: verifyShape_after_gate split: sum.splits)
  have g: "fetched (snd (getShaclShape env2 stN X)) = fetched stN @ [X]"
    by (simp add: getShaclShape_state)
  from f k n v g show ?thesis
    unfolding Let_def st'_def [symmetric] stN_def [symmetric] by blast
qed

lemma example_shape_loaded:
  "loadShaclFromUrl example_env initial_state ''trustframework'' =
     (Inr [''<urn:shape> <http://www.w3.org/1999/02/22-rdf-syntax-ns#type> <http://www.w3.org/ns/shacl#NodeShape> .''],
      initial_state\<lparr>fetched := [''trustframework'']\<rparr>)"
  by (simp add: loadShaclFromUrl_def getShape_def isJsonString_def loadFromTurtle_def
      registryUrl_def example_env_def initial_state_def newline_def)

lemma example_validate:
  "validate example_env shapes data = Inr \<lparr>conforms = True, results = []\<rparr>"
  by (simp add: validate_def example_env_def)

theorem cached_shape_reused_witness:
  "fetched (snd (verifyShape example_env initial_state (Object participant_quads) ''trustframework'')) =
     [''trustframework''] \<and>
   count_list
     (fetched
       (verifyShape_calls
         (snd (verifyShape example_env initial_state (Object participant_quads) ''trustframework''))
         [(example_env, Object participant_quads, ''trustframework''),
          (unreachable_env, Object participant_quads, ''trustframework'')]))
     ''trustframework'' = 1 \<and>
   fst (verifyShape unreachable_env
         (verifyShape_calls
           (snd (verifyShape example_env initial_state (Object participant_quads) ''trustframework''))
           [(example_env, Object participant_quads, ''trustframework''),
            (unreachable_env, Object participant_quads, ''trustframework'')])
         (Object participant_quads) ''trustframework'') =
     Inr \<lparr>conforms = True, results = []\<rparr>"
proof -
  have v: "validate unreachable_env shapes data = Inr \<lparr>conforms = True, results = []\<rparr>" for shapes data
    by (simp add: validate_def unreachable_env_def example_env_def)
  from cached_shape_reused
    [OF example_normalize example_gate_passes example_data_graph initial_not_cached
      example_shape_loaded unreachable_normalize unreachable_gate_passes unreachable_data_graph,
     of "[(example_env, Object participant_quads, ''trustframework''),
          (unreachable_env, Object participant_quads, ''trustframework'')]"]
  show ?thesis
    by (simp add: Let_def v initial_state_def)
qed

text \<open>
  C6, as the claim has it, fails: two calls of \<open>getShaclShape\<close> for the same name, one after
  the other, both succeed and both ask the registry.
\<close>

theorem getShaclShape_fetches_again:
  "fst (getShaclShape example_env (initial_state :: string list state) ''X'') =
     Inr [''<urn:shape> <http://www.w3.org/1999/02/22-rdf-syntax-ns#type> <http://www.w3.org/ns/shacl#NodeShape> .''] \<and>
   fst (getShaclShape example_env (snd (getShaclShape example_env initial_state ''X'')) ''X'') =
     Inr [''<urn:shape> <http://www.w3.org/1999/02/22-rdf-syntax-ns#type> <http://www.w3.org/ns/shacl#NodeShape> .''] \<and>
   fetched (snd (getShaclShape example_env (snd (getShaclShape example_env initial_state ''X'')) ''X'')) =
     [''X'', ''X'']"
  by code_simp

text \<open>
  C7. The claim fails on the code where the violation carries no message. The validator
  reports the messages of a result as a list, empty when there is none; the empty list is
  truthy, so \<^verbatim>\<open>result.message || 'does not conform with the given shape'\<close> keeps it, and it
  renders as the empty text. For the specification's example \<open>validate\<close> returns a string
  without the default text, where the specification's wording has the default text.
\<close>

theorem validate_empty_message_list:
  "validate (reporting_env no_message_report) [''shapes''] [''data''] =
     Inr \<lparr>conforms = False,
          results = [''ERROR: ex:1 ex:name: ; DETAILS: ex:age: must be integer;'']\<rparr> \<and>
   map violation_text (report_results no_message_report) =
     [''ERROR: ex:1 ex:name: does not conform with the given shape; DETAILS: ex:age: must be integer;'']"
  by (simp add: validate_def reporting_env_def no_message_report_def error_message_def
      message_or_default_def violation_text_def detail_text_def)

text \<open>
  C8, as the code has it. The extractor works on the text of the lines, not on the
  positions of their terms. It keeps the lines in which the text of the type predicate
  occurs somewhere and the text of no marker occurs anywhere (\<open>kept_lines\<close>), in the order
  of the input; when each kept line has at least three pieces between single spaces, it
  returns for each the third piece with every \<^verbatim>\<open><\<close> and \<^verbatim>\<open>>\<close> removed; otherwise it raises a
  TypeError.
\<close>

theorem getVPTypes_textual:
  "getVPTypes canonizedVP =
     (if \<forall>line\<in>set (kept_lines canonizedVP). 3 \<le> length (split_str line CHR '' '')
      then Inr (map (\<lambda>line. filter (\<lambda>x. x \<noteq> CHR ''<'' \<and> x \<noteq> CHR ''>'')
                               (split_str line CHR '' '' ! 2))
                 (kept_lines canonizedVP))
      else Inl (TypeError ''Cannot read properties of undefined (reading 'replace')''))"
  unfolding getVPTypes_def kept_lines_def filters_kept_lines
  by (rule map_throwing_third_term)

theorem getVPTypes_textual_witness:
  "getVPTypes participant_quads =
     Inr [''https://registry.lab.gaia-x.eu/development/api/trusted-shape-registry/v1/shapes/jsonld/trustframework#LegalParticipant'']"
  by (subst getVPTypes_textual) code_simp

text \<open>
  C8, as the claim has it, fails: in a quad whose object, not its predicate, is the IRI
  of the type predicate, the extractor returns that object, while no line of the input
  has the type predicate as its predicate.
\<close>

theorem getVPTypes_not_positional:
  "getVPTypes about_type_quads = Inr [''http://www.w3.org/1999/02/22-rdf-syntax-ns#type''] \<and>
   spec_extractTypes about_type_quads = []"
  by code_simp

text \<open>
  C9, as the code has it. When \<^verbatim>\<open>cache[type]\<close> is \<^verbatim>\<open>undefined\<close>, a \<open>verifyShape\<close> call that
  passes the gate returns \<^verbatim>\<open>{conforms: false, results: [m]}\<close> for one message \<open>m\<close> and leaves
  the cache as it was: nothing is cached, and a shape that loads meets the failing write,
  whose TypeError message is the result, whatever the validator would say.
\<close>

theorem undefined_entry_never_conforms:
  assumes "normalize env vp = Inr quads"
    and "shouldCredentialBeValidated env quads = Inr True"
    and "cache_get (cache st) type = None"
  shows "\<exists>m. fst (verifyShape env st vp type) = Inr \<lparr>conforms = False, results = [m]\<rparr>
           \<and> cache (snd (verifyShape env st vp type)) = cache st
           \<and> (\<forall>ds schema st1. loadFromJSONLDWithQuads env vp = Inr ds
                 \<longrightarrow> getShaclShape env st type = (Inr schema, st1)
                 \<longrightarrow> m = ''Cannot set properties of undefined (setting 'shape')'')"
proof -
  from assms(3) have nc: "cached_shape (cache st) type = None"
    by (simp add: cached_shape_def)
  obtain res st1 where g: "getShaclShape env st type = (res, st1)"
    by (cases "getShaclShape env st type")
  with getShaclShape_state [of env st type] have c1: "cache st1 = cache st" by auto
  with assms(3) have w: "set_shape (cache st1) type schema =
      Inl (TypeError ''Cannot set properties of undefined (setting 'shape')'')" for schema
    by (simp add: set_shape_def)
  show ?thesis
  proof (cases "loadFromJSONLDWithQuads env vp")
    case (Inl e)
    then have "verifyShape_try env st vp type = (Inl e, st)"
      by (simp add: verifyShape_try_def)
    with assms(1,2) Inl show ?thesis by (simp add: verifyShape_after_gate)
  next
    case (Inr ds)
    show ?thesis
    proof (cases res)
      case (Inl e)
      with Inr nc g have "verifyShape_try env st vp type = (Inl e, st1)"
        by (simp add: verifyShape_try_def)
      with assms(1,2) Inr Inl g c1 show ?thesis by (simp add: verifyShape_after_gate)
    next
      case schema: (Inr schema)
      with Inr nc g w have "verifyShape_try env st vp type =
          (Inl (TypeError ''Cannot set properties of undefined (setting 'shape')''), st1)"
        by (simp add: verifyShape_try_def)
      with assms(1,2) c1 show ?thesis by (simp add: verifyShape_after_gate)
    qed
  qed
qed

theorem undefined_entry_never_conforms_witness:
  "fst (verifyShape example_env initial_state (Object participant_quads) ''LegalParticipant'') =
     Inr \<lparr>conforms = False,
          results = [''Cannot set properties of undefined (setting 'shape')'']\<rparr> \<and>
   cache (snd (verifyShape example_env (initial_state :: string list state)
                 (Object participant_quads) ''LegalParticipant'')) = cache initial_state"
proof -
  have u: "cache_get (cache (initial_state :: string list state)) ''LegalParticipant'' = None"
    by (simp add: cache_get_def initial_state_def Object_prototype_methods_def)
  have g: "getShaclShape example_env initial_state ''LegalParticipant'' =
      (Inr [''<urn:shape> <http://www.w3.org/1999/02/22-rdf-syntax-ns#type> <http://www.w3.org/ns/shacl#NodeShape> .''],
       initial_state\<lparr>fetched := [''LegalParticipant'']\<rparr>)"
    by (simp add: getShaclShape_def loadShaclFromUrl_def getShape_def isJsonString_def
        loadFromTurtle_def registryUrl_def example_env_def initial_state_def newline_def)
  from undefined_entry_never_conforms [OF example_normalize example_gate_passes u]
  obtain m where
    r: "fst (verifyShape example_env initial_state (Object participant_quads) ''LegalParticipant'') =
          Inr \<lparr>conforms = False, results = [m]\<rparr>"
    and c: "cache (snd (verifyShape example_env (initial_state :: string list state)
                 (Object participant_quads) ''LegalParticipant'')) = cache initial_state"
    and m: "\<forall>ds schema st1.
              loadFromJSONLDWithQuads example_env (Object participant_quads) = Inr ds
              \<longrightarrow> getShaclShape example_env (initial_state :: string list state) ''LegalParticipant'' = (Inr schema, st1)
              \<longrightarrow> m = ''Cannot set properties of undefined (setting 'shape')''"
    by blast
  from m example_data_graph g
  have "m = ''Cannot set properties of undefined (setting 'shape')''" by blast
  with r c show ?thesis by simp
qed

text \<open>
  C9, as the claim has it, fails: \<^verbatim>\<open>'constructor'\<close> is not \<^verbatim>\<open>'trustframework'\<close> and has no
  entry in the cache, yet \<^verbatim>\<open>cache['constructor']\<close> is the function \<^verbatim>\<open>Object\<close>, inherited from
  \<^verbatim>\<open>Object.prototype\<close>: the write of its \<^verbatim>\<open>shape\<close> property succeeds and the call returns the
  validator's verdict.
\<close>

theorem inherited_name_can_conform:
  "fst (verifyShape example_env initial_state (Object participant_quads) ''constructor'') =
     Inr \<lparr>conforms = True, results = []\<rparr>"
  by code_simp

text \<open>
  C10. The membership check qualifies the names the registry answers with by one fixed
  namespace, the literal below: when the registry answers with \<open>names\<close> and the extractor
  returns \<open>credentialTypes\<close>, the decision is that the list is not empty and each of its
  elements is a name of \<open>names\<close> behind that literal. The configured registry URL enters
  only through the answer: two runs that receive the same answer decide the same for the
  same quads, whatever \<^verbatim>\<open>REGISTRY_URL\<close> is in each.
\<close>

theorem membership_independent_of_registry_url:
  assumes "getImplementedTrustFrameworkShapes env1 = getImplementedTrustFrameworkShapes env2"
  shows "shouldCredentialBeValidated env1 quads = shouldCredentialBeValidated env2 quads \<and>
         (\<forall>names credentialTypes.
            getImplementedTrustFrameworkShapes env1 = Inr names \<longrightarrow>
            getVPTypes quads = Inr credentialTypes \<longrightarrow>
            shouldCredentialBeValidated env1 quads =
              Inr (credentialTypes \<noteq> [] \<and>
                   (\<forall>t\<in>set credentialTypes.
                      t \<in> (\<lambda>name. ''https://registry.lab.gaia-x.eu/development/api/trusted-shape-registry/v1/shapes/jsonld/trustframework#'' @ name)
                            ` set names)))"
proof (intro conjI allI impI)
  from assms show "shouldCredentialBeValidated env1 quads = shouldCredentialBeValidated env2 quads"
    by (simp add: shouldCredentialBeValidated_def)
next
  fix names credentialTypes
  assume "getImplementedTrustFrameworkShapes env1 = Inr names"
    and "getVPTypes quads = Inr credentialTypes"
  from gate_value [OF this]
  show "shouldCredentialBeValidated env1 quads =
      Inr (credentialTypes \<noteq> [] \<and>
           (\<forall>t\<in>set credentialTypes.
              t \<in> (\<lambda>name. ''https://registry.lab.gaia-x.eu/development/api/trusted-shape-registry/v1/shapes/jsonld/trustframework#'' @ name)
                    ` set names))"
    by (simp add: namespace_def)
qed

lemma mirror_implemented:
  "getImplementedTrustFrameworkShapes mirror_env = Inr [''LegalParticipant'']"
  by (simp add: getImplementedTrustFrameworkShapes_def registryUrl_def mirror_env_def
      example_env_def)

lemma unregistered_types:
  "getVPTypes unregistered_quads = Inr [namespace @ ''Unregistered'']"
  by code_simp

theorem membership_independent_of_registry_url_witness:
  "shouldCredentialBeValidated mirror_env participant_quads = Inr True \<and>
   shouldCredentialBeValidated example_env participant_quads = Inr True \<and>
   shouldCredentialBeValidated mirror_env unregistered_quads = Inr False \<and>
   shouldCredentialBeValidated example_env unregistered_quads = Inr False \<and>
   registryUrl mirror_env = ''https://registry.example.org'' \<and>
   registryUrl example_env = ''https://registry.gaia-x.eu/development''"
proof -
  have h: "getImplementedTrustFrameworkShapes mirror_env =
      getImplementedTrustFrameworkShapes example_env"
    by (simp add: mirror_implemented example_implemented)
  note p = membership_independent_of_registry_url [OF h, of participant_quads]
  note u = membership_independent_of_registry_url [OF h, of unregistered_quads]
  from conjunct2 [OF p] mirror_implemented participant_types
  have mp: "shouldCredentialBeValidated mirror_env participant_quads = Inr True"
    by (simp add: namespace_def)
  from conjunct2 [OF u] mirror_implemented unregistered_types
  have mu: "shouldCredentialBeValidated mirror_env unregistered_quads = Inr False"
    by (simp add: namespace_def)
  from conjunct1 [OF p] mp
  have ep: "shouldCredentialBeValidated example_env participant_quads = Inr True" by simp
  from conjunct1 [OF u] mu
  have eu: "shouldCredentialBeValidated example_env unregistered_quads = Inr False" by simp
  have "registryUrl mirror_env = ''https://registry.example.org''"
    by (simp add: registryUrl_def mirror_env_def example_env_def)
  moreover have "registryUrl example_env = ''https://registry.gaia-x.eu/development''"
    by (simp add: registryUrl_def example_env_def)
  ultimately show ?thesis using mp mu ep eu by blast
qed

end
